theory Spec2Isabelle
  imports Complex_Main
begin

section \<open>JavaScript values\<close>

text \<open>
  The payloads of the socket events are untyped JavaScript objects. Only two things are
  ever done with a payload field in \<^verbatim>\<open>server.js\<close>: it is compared with a string literal
  by \<^verbatim>\<open>===\<close>, or it is defaulted with \<^verbatim>\<open>||\<close>, which tests truthiness. Numbers are kept
  as rationals with a separate \<open>JNaN\<close>; no arithmetic is done on them by the server.
\<close>

datatype jsval =
    JUndefined
  | JNull
  | JBool bool
  | JNum rat
  | JNaN
  | JStr string
  | JObj "(string \<times> jsval) list"

fun truthy :: "jsval \<Rightarrow> bool" where
  "truthy JUndefined = False"
| "truthy JNull = False"
| "truthy (JBool b) = b"
| "truthy (JNum n) = (n \<noteq> 0)"
| "truthy JNaN = False"
| "truthy (JStr s) = (s \<noteq> [])"
| "truthy (JObj fs) = True"

text \<open>\<^verbatim>\<open>a || b\<close>\<close>

definition js_or :: "jsval \<Rightarrow> jsval \<Rightarrow> jsval" where
  "js_or a b = (if truthy a then a else b)"

text \<open>\<^verbatim>\<open>data.k\<close>: reading a property that the object does not have gives \<^verbatim>\<open>undefined\<close>.\<close>

type_synonym jsobj = "(string \<times> jsval) list"

definition get_prop :: "jsobj \<Rightarrow> string \<Rightarrow> jsval" where
  "get_prop data k = (case map_of data k of None \<Rightarrow> JUndefined | Some v \<Rightarrow> v)"

section \<open>The server state\<close>

text \<open>
  \<^verbatim>\<open>room.playbackState\<close>, a room of the \<^verbatim>\<open>rooms\<close> Map and a record of the \<^verbatim>\<open>users\<close> Map
  (lines 108 and 112-121). A JavaScript \<^verbatim>\<open>Set\<close> iterates in insertion order, so
  \<^verbatim>\<open>room.users\<close> is a list that \<open>set_add\<close> keeps free of duplicates.
\<close>

record playback_state =
  isPlaying :: bool
  currentTime :: jsval
  playbackRate :: jsval

record room =
  users :: "string list"
  currentVideo :: jsval
  videoType :: "string option"
  playbackState :: playback_state

record user =
  roomId :: string
  username :: jsval

definition set_add :: "string list \<Rightarrow> string \<Rightarrow> string list" where
  "set_add xs x = (if x \<in> set xs then xs else xs @ [x])"

definition set_delete :: "string list \<Rightarrow> string \<Rightarrow> string list" where
  "set_delete xs x = removeAll x xs"

text \<open>
  The two module-level Maps of lines 60-61, and the room table of the Socket.IO adapter:
  \<open>sio st r\<close> is the set of sockets that are in the Socket.IO room \<open>r\<close>. The server
  changes it by \<^verbatim>\<open>socket.join\<close> only; Socket.IO itself puts every socket into the room
  named by its own id on connection and takes it out of all its rooms on disconnect.
\<close>

record server =
  rooms :: "string \<rightharpoonup> room"
  users_map :: "string \<rightharpoonup> user"
  sio :: "string \<Rightarrow> string set"

definition init :: server where
  "init = \<lparr> rooms = Map.empty, users_map = Map.empty, sio = (\<lambda>r. {}) \<rparr>"

definition default_playback :: playback_state where
  "default_playback = \<lparr> isPlaying = False, currentTime = JNum 0, playbackRate = JNum 1 \<rparr>"

definition new_room :: room where
  "new_room = \<lparr> users = [], currentVideo = JNull, videoType = None,
                playbackState = default_playback \<rparr>"

section \<open>Emissions\<close>

text \<open>The events the server emits, with their payloads.\<close>

datatype emitted =
    Emit_user_joined string jsval
  | Emit_room_state jsval "string option" playback_state "(string \<times> jsval) list"
  | Emit_video_event jsobj
  | Emit_youtube_video_changed jsval jsval
  | Emit_uploaded_video_changed jsval jsval
  | Emit_chat_message string jsval jsval string
  | Emit_webrtc_offer jsval string
  | Emit_webrtc_answer jsval string
  | Emit_webrtc_ice_candidate jsval string
  | Emit_user_left string jsval

text \<open>
  An emission is the set of sockets that receive it, and the message.
  \<^verbatim>\<open>socket.to(r).emit\<close> reaches the sockets in the Socket.IO room \<open>r\<close> except the
  emitting socket, \<^verbatim>\<open>io.to(r).emit\<close> reaches all of them, \<^verbatim>\<open>socket.emit\<close> reaches the
  socket's own client.
\<close>

type_synonym emission = "string set \<times> emitted"

definition socket_to :: "server \<Rightarrow> string \<Rightarrow> string \<Rightarrow> string set" where
  "socket_to st sid r = sio st r - {sid}"

definition io_to :: "server \<Rightarrow> string \<Rightarrow> string set" where
  "io_to st r = sio st r"

definition socket_emit :: "string \<Rightarrow> string set" where
  "socket_emit sid = {sid}"

definition socket_join :: "server \<Rightarrow> string \<Rightarrow> string \<Rightarrow> server" where
  "socket_join st sid r = st\<lparr> sio := (sio st)(r := insert sid (sio st r)) \<rparr>"

definition socket_leave_all :: "server \<Rightarrow> string \<Rightarrow> server" where
  "socket_leave_all st sid = st\<lparr> sio := (\<lambda>r. sio st r - {sid}) \<rparr>"

section \<open>The handlers\<close>

text \<open>Line 100: a socket connects and is put into the room of its own id.\<close>

definition connection :: "server \<Rightarrow> string \<Rightarrow> server \<times> emission list" where
  "connection st sid = (socket_join st sid sid, [])"

text \<open>Lines 104-145, \<^verbatim>\<open>join-room\<close>.\<close>

definition resolve_username :: "server \<Rightarrow> string \<Rightarrow> jsval" where
  "resolve_username st userId =
     js_or (case users_map st userId of None \<Rightarrow> JUndefined | Some u \<Rightarrow> username u)
           (JStr ''Unknown'')"

definition join_room :: "server \<Rightarrow> string \<Rightarrow> string \<Rightarrow> jsval \<Rightarrow> server \<times> emission list" where
  "join_room st sid rid uname =
     (let st1 = socket_join st sid rid;
          st2 = st1\<lparr> users_map := (users_map st1)(sid \<mapsto> \<lparr> roomId = rid, username = uname \<rparr>) \<rparr>;
          room0 = (case rooms st2 rid of None \<Rightarrow> new_room | Some r \<Rightarrow> r);
          room1 = room0\<lparr> users := set_add (users room0) sid \<rparr>;
          st3 = st2\<lparr> rooms := (rooms st2)(rid \<mapsto> room1) \<rparr>
      in (st3,
          [(socket_to st3 sid rid, Emit_user_joined sid uname),
           (socket_emit sid,
            Emit_room_state (currentVideo room1) (videoType room1) (playbackState room1)
              (map (\<lambda>userId. (userId, resolve_username st3 userId)) (users room1)))]))"

text \<open>Lines 155-165: the update of \<^verbatim>\<open>room.playbackState\<close> by a \<^verbatim>\<open>video-event\<close>.\<close>

definition apply_video_event :: "playback_state \<Rightarrow> jsobj \<Rightarrow> playback_state" where
  "apply_video_event ps data =
     (if get_prop data ''type'' = JStr ''play'' then
        ps\<lparr> isPlaying := True, currentTime := js_or (get_prop data ''currentTime'') (JNum 0) \<rparr>
      else if get_prop data ''type'' = JStr ''pause'' then
        ps\<lparr> isPlaying := False, currentTime := js_or (get_prop data ''currentTime'') (JNum 0) \<rparr>
      else if get_prop data ''type'' = JStr ''seek'' then
        ps\<lparr> currentTime := js_or (get_prop data ''currentTime'') (JNum 0) \<rparr>
      else if get_prop data ''type'' = JStr ''rate-change'' then
        ps\<lparr> playbackRate := js_or (get_prop data ''playbackRate'') (JNum 1) \<rparr>
      else ps)"

text \<open>Lines 148-169, \<^verbatim>\<open>video-event\<close>.\<close>

definition video_event :: "server \<Rightarrow> string \<Rightarrow> jsobj \<Rightarrow> server \<times> emission list" where
  "video_event st sid data =
     (case users_map st sid of
        None \<Rightarrow> (st, [])
      | Some u \<Rightarrow>
          (case rooms st (roomId u) of
             None \<Rightarrow> (st, [])
           | Some room \<Rightarrow>
               (st\<lparr> rooms := (rooms st)(roomId u \<mapsto>
                      room\<lparr> playbackState := apply_video_event (playbackState room) data \<rparr>) \<rparr>,
                [(socket_to st sid (roomId u), Emit_video_event data)])))"

text \<open>Lines 172-190, \<^verbatim>\<open>change-youtube-video\<close>, and 193-211, \<^verbatim>\<open>change-uploaded-video\<close>.\<close>

definition change_youtube_video ::
  "server \<Rightarrow> string \<Rightarrow> jsval \<Rightarrow> jsval \<Rightarrow> server \<times> emission list" where
  "change_youtube_video st sid videoId title =
     (case users_map st sid of
        None \<Rightarrow> (st, [])
      | Some u \<Rightarrow>
          (case rooms st (roomId u) of
             None \<Rightarrow> (st, [])
           | Some room \<Rightarrow>
               (st\<lparr> rooms := (rooms st)(roomId u \<mapsto>
                      room\<lparr> currentVideo := videoId, videoType := Some ''youtube'',
                            playbackState := \<lparr> isPlaying = False, currentTime = JNum 0,
                                               playbackRate = JNum 1 \<rparr> \<rparr>) \<rparr>,
                [(io_to st (roomId u), Emit_youtube_video_changed videoId title)])))"

definition change_uploaded_video ::
  "server \<Rightarrow> string \<Rightarrow> jsval \<Rightarrow> jsval \<Rightarrow> server \<times> emission list" where
  "change_uploaded_video st sid fileUrl fileName =
     (case users_map st sid of
        None \<Rightarrow> (st, [])
      | Some u \<Rightarrow>
          (case rooms st (roomId u) of
             None \<Rightarrow> (st, [])
           | Some room \<Rightarrow>
               (st\<lparr> rooms := (rooms st)(roomId u \<mapsto>
                      room\<lparr> currentVideo := fileUrl, videoType := Some ''upload'',
                            playbackState := \<lparr> isPlaying = False, currentTime = JNum 0,
                                               playbackRate = JNum 1 \<rparr> \<rparr>) \<rparr>,
                [(io_to st (roomId u), Emit_uploaded_video_changed fileUrl fileName)])))"

text \<open>
  Lines 214-227, \<^verbatim>\<open>chat-message\<close>. The timestamp \<^verbatim>\<open>new Date().toISOString()\<close> is read
  from the clock, so it is an argument here.
\<close>

definition chat_message ::
  "server \<Rightarrow> string \<Rightarrow> jsval \<Rightarrow> string \<Rightarrow> server \<times> emission list" where
  "chat_message st sid message now =
     (case users_map st sid of
        None \<Rightarrow> (st, [])
      | Some u \<Rightarrow>
          (st, [(io_to st (roomId u), Emit_chat_message sid (username u) message now)]))"

text \<open>Lines 230-249, the three signaling handlers.\<close>

definition webrtc_offer :: "server \<Rightarrow> string \<Rightarrow> string \<Rightarrow> jsval \<Rightarrow> server \<times> emission list" where
  "webrtc_offer st sid target offer = (st, [(socket_to st sid target, Emit_webrtc_offer offer sid)])"

definition webrtc_answer :: "server \<Rightarrow> string \<Rightarrow> string \<Rightarrow> jsval \<Rightarrow> server \<times> emission list" where
  "webrtc_answer st sid target answer =
     (st, [(socket_to st sid target, Emit_webrtc_answer answer sid)])"

definition webrtc_ice_candidate ::
  "server \<Rightarrow> string \<Rightarrow> string \<Rightarrow> jsval \<Rightarrow> server \<times> emission list" where
  "webrtc_ice_candidate st sid target candidate =
     (st, [(socket_to st sid target, Emit_webrtc_ice_candidate candidate sid)])"

text \<open>
  Lines 252-275, \<^verbatim>\<open>disconnect\<close>. Socket.IO has taken the socket out of all its rooms
  when the handler runs.
\<close>

definition disconnect :: "server \<Rightarrow> string \<Rightarrow> server \<times> emission list" where
  "disconnect st0 sid =
     (let st = socket_leave_all st0 sid in
      case users_map st sid of
        None \<Rightarrow> (st, [])
      | Some u \<Rightarrow>
          (case rooms st (roomId u) of
             None \<Rightarrow> (st\<lparr> users_map := (users_map st)(sid := None) \<rparr>, [])
           | Some room \<Rightarrow>
               (let room1 = room\<lparr> users := set_delete (users room) sid \<rparr> in
                if length (users room1) = 0 then
                  (st\<lparr> rooms := (rooms st)(roomId u := None),
                       users_map := (users_map st)(sid := None) \<rparr>, [])
                else
                  (st\<lparr> rooms := (rooms st)(roomId u \<mapsto> room1),
                       users_map := (users_map st)(sid := None) \<rparr>,
                   [(socket_to st sid (roomId u), Emit_user_left sid (username u))]))))"

section \<open>Runs of the server\<close>

datatype event =
    Connection string
  | JoinRoom string string jsval
  | VideoEvent string jsobj
  | ChangeYoutubeVideo string jsval jsval
  | ChangeUploadedVideo string jsval jsval
  | ChatMessage string jsval string
  | WebrtcOffer string string jsval
  | WebrtcAnswer string string jsval
  | WebrtcIceCandidate string string jsval
  | Disconnect string

fun step :: "server \<Rightarrow> event \<Rightarrow> server \<times> emission list" where
  "step st (Connection sid) = connection st sid"
| "step st (JoinRoom sid rid uname) = join_room st sid rid uname"
| "step st (VideoEvent sid data) = video_event st sid data"
| "step st (ChangeYoutubeVideo sid videoId title) = change_youtube_video st sid videoId title"
| "step st (ChangeUploadedVideo sid fileUrl fileName) =
     change_uploaded_video st sid fileUrl fileName"
| "step st (ChatMessage sid message now) = chat_message st sid message now"
| "step st (WebrtcOffer sid target offer) = webrtc_offer st sid target offer"
| "step st (WebrtcAnswer sid target answer) = webrtc_answer st sid target answer"
| "step st (WebrtcIceCandidate sid target candidate) =
     webrtc_ice_candidate st sid target candidate"
| "step st (Disconnect sid) = disconnect st sid"

fun run :: "server \<Rightarrow> event list \<Rightarrow> server" where
  "run st [] = st"
| "run st (e # es) = run (fst (step st e)) es"

section \<open>Notions used by the properties\<close>

text \<open>The four event types that lines 155-165 recognise.\<close>

definition playback_kinds :: "jsval set" where
  "playback_kinds = {JStr ''play'', JStr ''pause'', JStr ''seek'', JStr ''rate-change''}"

text \<open>
  A small run: two sockets connect and join the room \<open>r\<close>, and the first one seeks to
  second 42.
\<close>

definition demo :: server where
  "demo = run init [Connection ''a'', Connection ''b'', JoinRoom ''a'' ''r'' (JStr ''Ann''),
                    JoinRoom ''b'' ''r'' (JStr ''Bob''),
                    VideoEvent ''a'' [(''type'', JStr ''seek''), (''currentTime'', JNum 42)]]"

text \<open>Every room of the store has a playback rate that is truthy, so not 0.\<close>

definition room_inv_rate :: "server \<Rightarrow> bool" where
  "room_inv_rate st =
     (\<forall>r room. rooms st r = Some room \<longrightarrow> truthy (playbackRate (playbackState room)))"

text \<open>The member set of a room identifier: empty when the store has no such room.\<close>

definition member_set :: "server \<Rightarrow> string \<Rightarrow> string set" where
  "member_set st r = (case rooms st r of None \<Rightarrow> {} | Some room \<Rightarrow> set (users room))"

text \<open>Every room of the store has a member.\<close>

definition rooms_nonempty :: "server \<Rightarrow> bool" where
  "rooms_nonempty st = (\<forall>r room. rooms st r = Some room \<longrightarrow> users room \<noteq> [])"

text \<open>
  Two more runs: one socket alone in the room \<open>r\<close>; and a socket that joins \<open>A\<close>, then
  \<open>B\<close>, and disconnects, before a second socket connects.
\<close>

definition solo :: server where
  "solo = run init [Connection ''a'', JoinRoom ''a'' ''r'' (JStr ''Ann'')]"

definition stale :: server where
  "stale = run init [Connection ''a'', JoinRoom ''a'' ''A'' (JStr ''Ann''),
                     JoinRoom ''a'' ''B'' (JStr ''Ann''), Disconnect ''a'', Connection ''b'']"

text \<open>
  The socket an event is of. The handlers of lines 104-275 are registered on a socket
  when it connects, and Socket.IO raises no event for a socket after its
  \<^verbatim>\<open>disconnect\<close>, nor gives its id to a later connection: in a \<open>live_trace\<close> no event is
  of a socket that has disconnected before.
\<close>

fun socket_of :: "event \<Rightarrow> string" where
  "socket_of (Connection sid) = sid"
| "socket_of (JoinRoom sid rid uname) = sid"
| "socket_of (VideoEvent sid data) = sid"
| "socket_of (ChangeYoutubeVideo sid videoId title) = sid"
| "socket_of (ChangeUploadedVideo sid fileUrl fileName) = sid"
| "socket_of (ChatMessage sid message now) = sid"
| "socket_of (WebrtcOffer sid target offer) = sid"
| "socket_of (WebrtcAnswer sid target answer) = sid"
| "socket_of (WebrtcIceCandidate sid target candidate) = sid"
| "socket_of (Disconnect sid) = sid"

fun departed :: "string set \<Rightarrow> event \<Rightarrow> string set" where
  "departed gone (Disconnect sid) = insert sid gone"
| "departed gone e = gone"

fun live_trace :: "string set \<Rightarrow> event list \<Rightarrow> bool" where
  "live_trace gone [] = True"
| "live_trace gone (e # es) = (socket_of e \<notin> gone \<and> live_trace (departed gone e) es)"

text \<open>The event is a join to the room \<open>r\<close>.\<close>

fun joins :: "event \<Rightarrow> string \<Rightarrow> bool" where
  "joins (JoinRoom sid rid uname) r = (rid = r)"
| "joins e r = False"

text \<open>
  The members of a room that have a registry record, which a socket has from its first
  join to its disconnect.
\<close>

definition live_members :: "server \<Rightarrow> string \<Rightarrow> string list" where
  "live_members st r =
     filter (\<lambda>t. users_map st t \<noteq> None) (case rooms st r of None \<Rightarrow> [] | Some room \<Rightarrow> users room)"

text \<open>
  A registered socket is in the Socket.IO room of its registry record, and in the member
  set of that room; a member of a room without a registry record has disconnected, and
  one with a record is in the Socket.IO room.
\<close>

definition reg_in_sio :: "server \<Rightarrow> bool" where
  "reg_in_sio st = (\<forall>s u. users_map st s = Some u \<longrightarrow> s \<in> sio st (roomId u))"

definition reg_in_room :: "server \<Rightarrow> bool" where
  "reg_in_room st = (\<forall>s u. users_map st s = Some u \<longrightarrow> s \<in> member_set st (roomId u))"

definition members_live :: "server \<Rightarrow> string set \<Rightarrow> bool" where
  "members_live st gone =
     (\<forall>r room t. rooms st r = Some room \<and> t \<in> set (users room) \<longrightarrow>
        (if users_map st t = None then t \<in> gone else t \<in> sio st r))"

text \<open>Three sockets connect, and \<open>c\<close> joins a room that has the id of \<open>b\<close> as its identifier.\<close>

definition eaves :: server where
  "eaves = run init [Connection ''a'', Connection ''b'', Connection ''c'',
                     JoinRoom ''c'' ''b'' (JStr ''Cy'')]"

section \<open>Basic facts\<close>

lemmas handler_defs =
  connection_def join_room_def video_event_def change_youtube_video_def
  change_uploaded_video_def chat_message_def webrtc_offer_def webrtc_answer_def
  webrtc_ice_candidate_def disconnect_def socket_join_def socket_leave_all_def
  socket_to_def io_to_def socket_emit_def set_add_def set_delete_def new_room_def
  default_playback_def resolve_username_def js_or_def get_prop_def apply_video_event_def
  init_def

lemma demo_room:
  "rooms demo ''r'' = Some \<lparr> users = [''a'', ''b''], currentVideo = JNull, videoType = None,
     playbackState = \<lparr> isPlaying = False, currentTime = JNum 42, playbackRate = JNum 1 \<rparr> \<rparr>"
  by (simp add: demo_def handler_defs Let_def)

lemma demo_user: "users_map demo ''a'' = Some \<lparr> roomId = ''r'', username = JStr ''Ann'' \<rparr>"
  by (simp add: demo_def handler_defs Let_def)

lemma demo_sio: "sio demo ''r'' = {''a'', ''b''}"
  by (auto simp add: demo_def handler_defs Let_def)

lemma apply_video_event_unknown:
  "get_prop data ''type'' \<notin> playback_kinds \<Longrightarrow> apply_video_event ps data = ps"
  by (simp add: apply_video_event_def playback_kinds_def)

lemma server_rooms_same:
  "rooms st r = Some room \<Longrightarrow> st\<lparr> rooms := (rooms st)(r \<mapsto> room) \<rparr> = st"
  by (simp add: fun_upd_idem)

section \<open>Events of an unknown type\<close>

text \<open>
  C3, as the specification states it: a \<^verbatim>\<open>video-event\<close> whose type is none of play,
  pause, seek, rate-change is dropped, with no change of the playback state and no
  broadcast. The broadcast of line 168 is outside the \<^verbatim>\<open>if\<close> chain: in the run \<open>demo\<close>
  an event of type \<^verbatim>\<open>stop\<close> sent by \<open>a\<close> is emitted to \<open>b\<close>.
\<close>

theorem C3_counterexample:
  "get_prop [(''type'', JStr ''stop'')] ''type'' \<notin> playback_kinds \<and>
   snd (video_event demo ''a'' [(''type'', JStr ''stop'')]) =
     [({''b''}, Emit_video_event [(''type'', JStr ''stop'')])]"
  by (auto simp add: video_event_def demo_room demo_user demo_sio socket_to_def get_prop_def
        playback_kinds_def)

text \<open>
  C3, amended: a \<^verbatim>\<open>video-event\<close> whose type is none of play, pause, seek, rate-change
  leaves the whole server state, and so the playback state of the room, as it was; when
  the sender has a registry record and its room exists, the payload is still emitted,
  unchanged, to the other sockets of the room.
\<close>

theorem C3_unknown_type:
  "get_prop data ''type'' \<notin> playback_kinds \<longrightarrow>
     fst (video_event st sid data) = st \<and>
     (\<forall>u room. users_map st sid = Some u \<and> rooms st (roomId u) = Some room \<longrightarrow>
        snd (video_event st sid data) = [(sio st (roomId u) - {sid}, Emit_video_event data)])"
  by (auto simp add: video_event_def apply_video_event_unknown server_rooms_same socket_to_def
        split: option.splits)

theorem C3_unknown_type_witness:
  "get_prop [(''type'', JStr ''stop'')] ''type'' \<notin> playback_kinds \<and>
   fst (video_event demo ''a'' [(''type'', JStr ''stop'')]) = demo \<and>
   snd (video_event demo ''a'' [(''type'', JStr ''stop'')]) =
     [({''b''}, Emit_video_event [(''type'', JStr ''stop'')])]"
proof -
  have k: "get_prop [(''type'', JStr ''stop'')] ''type'' \<notin> playback_kinds"
    by (simp add: get_prop_def playback_kinds_def)
  have "sio demo ''r'' - {''a''} = {''b''}" by (auto simp add: demo_sio)
  with k C3_unknown_type [of "[(''type'', JStr ''stop'')]" demo "''a''"] demo_user demo_room
  show ?thesis by auto
qed

section \<open>Events with an absent field\<close>

text \<open>
  C4, as the specification states it: a playback event whose numeric field is absent
  leaves that field of the room's playback state at its prior value. In the run \<open>demo\<close>
  the room is at second 42, and a \<^verbatim>\<open>play\<close> without \<^verbatim>\<open>currentTime\<close> puts it at 0, by the
  \<^verbatim>\<open>|| 0\<close> of line 157.
\<close>

theorem C4_counterexample:
  "map_of [(''type'', JStr ''play'')] ''currentTime'' = None \<and>
   map_option (currentTime \<circ> playbackState) (rooms demo ''r'') = Some (JNum 42) \<and>
   map_option (currentTime \<circ> playbackState)
     (rooms (fst (video_event demo ''a'' [(''type'', JStr ''play'')])) ''r'') = Some (JNum 0)"
  by (simp add: video_event_def demo_room demo_user apply_video_event_def get_prop_def js_or_def)

lemma apply_absent_currentTime:
  "map_of data ''currentTime'' = None \<Longrightarrow>
   get_prop data ''type'' \<in> {JStr ''play'', JStr ''pause'', JStr ''seek''} \<Longrightarrow>
   currentTime (apply_video_event ps data) = JNum 0 \<and>
   playbackRate (apply_video_event ps data) = playbackRate ps"
  by (auto simp add: apply_video_event_def get_prop_def js_or_def)

lemma apply_absent_playbackRate:
  "map_of data ''playbackRate'' = None \<Longrightarrow>
   get_prop data ''type'' = JStr ''rate-change'' \<Longrightarrow>
   playbackRate (apply_video_event ps data) = JNum 1 \<and>
   currentTime (apply_video_event ps data) = currentTime ps \<and>
   isPlaying (apply_video_event ps data) = isPlaying ps"
  by (auto simp add: apply_video_event_def get_prop_def js_or_def)

lemma video_event_room:
  "users_map st sid = Some u \<Longrightarrow> rooms st (roomId u) = Some room \<Longrightarrow>
   rooms (fst (video_event st sid data)) (roomId u) =
     Some (room\<lparr> playbackState := apply_video_event (playbackState room) data \<rparr>)"
  by (simp add: video_event_def)

text \<open>
  C4, amended: when the sender is registered and its room exists, a play, pause or seek
  without \<^verbatim>\<open>currentTime\<close> sets the room's currentTime to 0 and leaves its playbackRate,
  and a rate-change without \<^verbatim>\<open>playbackRate\<close> sets the room's playbackRate to 1 and leaves
  its currentTime and isPlaying.
\<close>

theorem C4_absent_field_default:
  "users_map st sid = Some u \<and> rooms st (roomId u) = Some room \<longrightarrow>
     (map_of data ''currentTime'' = None \<and>
      get_prop data ''type'' \<in> {JStr ''play'', JStr ''pause'', JStr ''seek''} \<longrightarrow>
        (\<exists>room'. rooms (fst (video_event st sid data)) (roomId u) = Some room' \<and>
           currentTime (playbackState room') = JNum 0 \<and>
           playbackRate (playbackState room') = playbackRate (playbackState room))) \<and>
     (map_of data ''playbackRate'' = None \<and> get_prop data ''type'' = JStr ''rate-change'' \<longrightarrow>
        (\<exists>room'. rooms (fst (video_event st sid data)) (roomId u) = Some room' \<and>
           playbackRate (playbackState room') = JNum 1 \<and>
           currentTime (playbackState room') = currentTime (playbackState room) \<and>
           isPlaying (playbackState room') = isPlaying (playbackState room)))"
  using apply_absent_currentTime [of data "playbackState room"]
        apply_absent_playbackRate [of data "playbackState room"]
  by (simp add: video_event_room)

theorem C4_absent_field_default_witness:
  "(\<exists>room'. rooms (fst (video_event demo ''a'' [(''type'', JStr ''play'')])) ''r'' = Some room' \<and>
      currentTime (playbackState room') = JNum 0 \<and> playbackRate (playbackState room') = JNum 1) \<and>
   (\<exists>room'. rooms (fst (video_event demo ''a'' [(''type'', JStr ''rate-change'')])) ''r'' =
        Some room' \<and>
      playbackRate (playbackState room') = JNum 1 \<and> currentTime (playbackState room') = JNum 42 \<and>
      isPlaying (playbackState room') = False)"
  using C4_absent_field_default [of demo "''a''" "\<lparr> roomId = ''r'', username = JStr ''Ann'' \<rparr>"
          "\<lparr> users = [''a'', ''b''], currentVideo = JNull, videoType = None,
            playbackState = \<lparr> isPlaying = False, currentTime = JNum 42, playbackRate = JNum 1 \<rparr> \<rparr>"
          "[(''type'', JStr ''play'')]"]
        C4_absent_field_default [of demo "''a''" "\<lparr> roomId = ''r'', username = JStr ''Ann'' \<rparr>"
          "\<lparr> users = [''a'', ''b''], currentVideo = JNull, videoType = None,
            playbackState = \<lparr> isPlaying = False, currentTime = JNum 42, playbackRate = JNum 1 \<rparr> \<rparr>"
          "[(''type'', JStr ''rate-change'')]"]
  by (simp add: demo_user demo_room get_prop_def)

section \<open>Changing the video\<close>

text \<open>
  C5: when the sender is registered and its room exists, \<^verbatim>\<open>change-youtube-video\<close> and
  \<^verbatim>\<open>change-uploaded-video\<close> set the room's currentVideo to the new reference and its
  videoType to the kind, and reset its playbackState to
  \<^verbatim>\<open>{isPlaying: false, currentTime: 0, playbackRate: 1}\<close>, whatever the room was before;
  the member set is the only field kept.
\<close>

theorem C5_video_change_resets:
  "users_map st sid = Some u \<and> rooms st (roomId u) = Some room \<longrightarrow>
     rooms (fst (change_youtube_video st sid videoId title)) (roomId u) =
       Some (room\<lparr> currentVideo := videoId, videoType := Some ''youtube'',
                   playbackState := \<lparr> isPlaying = False, currentTime = JNum 0,
                                      playbackRate = JNum 1 \<rparr> \<rparr>) \<and>
     rooms (fst (change_uploaded_video st sid fileUrl fileName)) (roomId u) =
       Some (room\<lparr> currentVideo := fileUrl, videoType := Some ''upload'',
                   playbackState := \<lparr> isPlaying = False, currentTime = JNum 0,
                                      playbackRate = JNum 1 \<rparr> \<rparr>)"
  by (simp add: change_youtube_video_def change_uploaded_video_def)

theorem C5_video_change_resets_witness:
  "rooms (fst (change_youtube_video demo ''a'' (JStr ''abc123'') (JStr ''Demo''))) ''r'' =
     Some \<lparr> users = [''a'', ''b''], currentVideo = JStr ''abc123'', videoType = Some ''youtube'',
            playbackState = \<lparr> isPlaying = False, currentTime = JNum 0, playbackRate = JNum 1 \<rparr> \<rparr> \<and>
   rooms (fst (change_uploaded_video demo ''a'' (JStr ''/uploads/x.mp4'') (JStr ''x.mp4''))) ''r'' =
     Some \<lparr> users = [''a'', ''b''], currentVideo = JStr ''/uploads/x.mp4'',
            videoType = Some ''upload'',
            playbackState = \<lparr> isPlaying = False, currentTime = JNum 0, playbackRate = JNum 1 \<rparr> \<rparr>"
  using C5_video_change_resets [of demo "''a''" "\<lparr> roomId = ''r'', username = JStr ''Ann'' \<rparr>"
          "\<lparr> users = [''a'', ''b''], currentVideo = JNull, videoType = None,
            playbackState = \<lparr> isPlaying = False, currentTime = JNum 42, playbackRate = JNum 1 \<rparr> \<rparr>"
          "JStr ''abc123''" "JStr ''Demo''" "JStr ''/uploads/x.mp4''" "JStr ''x.mp4''"]
  by (simp add: demo_user demo_room)

section \<open>The playback rate is never 0\<close>

lemma truthy_js_or: "truthy b \<Longrightarrow> truthy (js_or a b)"
  by (simp add: js_or_def)

lemma apply_video_event_rate:
  "truthy (playbackRate ps) \<Longrightarrow> truthy (playbackRate (apply_video_event ps data))"
  by (simp add: apply_video_event_def truthy_js_or)

lemma step_rate: "room_inv_rate st \<Longrightarrow> room_inv_rate (fst (step st e))"
proof (cases e)
  case (JoinRoom sid rid uname)
  assume "room_inv_rate st"
  then show ?thesis unfolding JoinRoom
    by (auto simp add: room_inv_rate_def join_room_def Let_def socket_join_def new_room_def
          default_playback_def split: option.splits)
next
  case (VideoEvent sid data)
  assume "room_inv_rate st"
  then show ?thesis unfolding VideoEvent
    by (auto simp add: room_inv_rate_def video_event_def apply_video_event_rate
          split: option.splits)
next
  case (Disconnect sid)
  assume "room_inv_rate st"
  then show ?thesis unfolding Disconnect
    by (auto simp add: room_inv_rate_def disconnect_def Let_def socket_leave_all_def
          split: option.splits if_splits)
qed (auto simp add: room_inv_rate_def handler_defs split: option.splits)

lemma run_rate: "room_inv_rate st \<Longrightarrow> room_inv_rate (run st es)"
  by (induction es arbitrary: st) (simp_all add: step_rate)

lemma init_rate: "room_inv_rate init"
  by (simp add: room_inv_rate_def init_def)

text \<open>
  C9: when the sender is registered and its room exists, a rate-change whose
  \<^verbatim>\<open>playbackRate\<close> is absent, null or 0 sets the room's playbackRate to 1; and after any
  sequence of events from the empty server, of \<^verbatim>\<open>video-event\<close>s and of all the others, no
  room of the store has the playbackRate 0.
\<close>

theorem C9_rate_never_zero:
  "(users_map st sid = Some u \<and> rooms st (roomId u) = Some room \<and>
    get_prop data ''type'' = JStr ''rate-change'' \<and>
    (map_of data ''playbackRate'' = None \<or> get_prop data ''playbackRate'' = JNull \<or>
     get_prop data ''playbackRate'' = JNum 0) \<longrightarrow>
      map_option (playbackRate \<circ> playbackState) (rooms (fst (video_event st sid data)) (roomId u))
        = Some (JNum 1)) \<and>
   (\<forall>r room'. rooms (run init es) r = Some room' \<longrightarrow>
      playbackRate (playbackState room') \<noteq> JNum 0)"
proof -
  have "room_inv_rate (run init es)" by (simp add: run_rate init_rate)
  then have "\<forall>r room'. rooms (run init es) r = Some room' \<longrightarrow>
      playbackRate (playbackState room') \<noteq> JNum 0"
    by (fastforce simp add: room_inv_rate_def)
  then show ?thesis
    by (auto simp add: video_event_room apply_video_event_def get_prop_def js_or_def)
qed

theorem C9_rate_never_zero_witness:
  "map_option (playbackRate \<circ> playbackState)
     (rooms (fst (video_event demo ''a''
        [(''type'', JStr ''rate-change''), (''playbackRate'', JNum 0)])) ''r'') = Some (JNum 1) \<and>
   (\<exists>room'. rooms (run init [Connection ''a'', JoinRoom ''a'' ''r'' (JStr ''Ann''),
        VideoEvent ''a'' [(''type'', JStr ''rate-change''), (''playbackRate'', JNum 0)]]) ''r'' =
          Some room' \<and> playbackRate (playbackState room') \<noteq> JNum 0)"
proof -
  let ?d = "[(''type'', JStr ''rate-change''), (''playbackRate'', JNum 0)]"
  let ?es = "[Connection ''a'', JoinRoom ''a'' ''r'' (JStr ''Ann''), VideoEvent ''a'' ?d]"
  have r: "rooms (run init ?es) ''r'' =
      Some \<lparr> users = [''a''], currentVideo = JNull, videoType = None,
             playbackState = \<lparr> isPlaying = False, currentTime = JNum 0, playbackRate = JNum 1 \<rparr> \<rparr>"
    by (simp add: handler_defs Let_def)
  have p: "get_prop ?d ''type'' = JStr ''rate-change'' \<and> get_prop ?d ''playbackRate'' = JNum 0"
    by (simp add: get_prop_def)
  from r p demo_user demo_room
    C9_rate_never_zero [of demo "''a''" "\<lparr> roomId = ''r'', username = JStr ''Ann'' \<rparr>"
      "\<lparr> users = [''a'', ''b''], currentVideo = JNull, videoType = None,
        playbackState = \<lparr> isPlaying = False, currentTime = JNum 42, playbackRate = JNum 1 \<rparr> \<rparr>"
      ?d ?es]
  show ?thesis by auto
qed

section \<open>What a join and a disconnect do to the state\<close>

lemma join_room_users_map:
  "users_map (fst (join_room st sid rid uname)) =
     (users_map st)(sid \<mapsto> \<lparr> roomId = rid, username = uname \<rparr>)"
  by (simp add: join_room_def Let_def socket_join_def)

lemma join_room_rooms:
  "rooms (fst (join_room st sid rid uname)) =
     (rooms st)(rid \<mapsto> (case rooms st rid of None \<Rightarrow> new_room | Some r \<Rightarrow> r)
        \<lparr> users := set_add (users (case rooms st rid of None \<Rightarrow> new_room | Some r \<Rightarrow> r)) sid \<rparr>)"
  by (simp add: join_room_def Let_def socket_join_def)

lemma join_room_sio:
  "sio (fst (join_room st sid rid uname)) = (sio st)(rid := insert sid (sio st rid))"
  by (simp add: join_room_def Let_def socket_join_def)

lemma join_room_out:
  "snd (join_room st sid rid uname) =
     [(insert sid (sio st rid) - {sid}, Emit_user_joined sid uname),
      ({sid}, Emit_room_state
         (currentVideo (the (rooms (fst (join_room st sid rid uname)) rid)))
         (videoType (the (rooms (fst (join_room st sid rid uname)) rid)))
         (playbackState (the (rooms (fst (join_room st sid rid uname)) rid)))
         (map (\<lambda>userId. (userId, resolve_username (fst (join_room st sid rid uname)) userId))
            (users (the (rooms (fst (join_room st sid rid uname)) rid)))))]"
  by (simp add: join_room_def Let_def socket_join_def socket_to_def socket_emit_def)

lemma set_add_set: "set (set_add xs x) = insert x (set xs)"
  by (auto simp add: set_add_def)

lemma set_delete_set: "set (set_delete xs x) = set xs - {x}"
  by (auto simp add: set_delete_def)

lemma disconnect_users_map: "users_map (fst (disconnect st sid)) = (users_map st)(sid := None)"
  by (auto simp add: disconnect_def Let_def socket_leave_all_def fun_upd_idem split: option.splits)

lemma disconnect_sio: "sio (fst (disconnect st sid)) = (\<lambda>r. sio st r - {sid})"
  by (auto simp add: disconnect_def Let_def socket_leave_all_def split: option.splits)

lemma removeAll_Nil_iff: "(removeAll x xs = []) = (set xs \<subseteq> {x})"
  by (induction xs) auto

lemma disconnect_rooms:
  "rooms (fst (disconnect st sid)) =
     (case users_map st sid of None \<Rightarrow> rooms st
      | Some u \<Rightarrow>
         (case rooms st (roomId u) of None \<Rightarrow> rooms st
          | Some room \<Rightarrow>
              if set (users room) \<subseteq> {sid} then (rooms st)(roomId u := None)
              else (rooms st)(roomId u \<mapsto> room\<lparr> users := set_delete (users room) sid \<rparr>)))"
  by (simp add: disconnect_def Let_def socket_leave_all_def set_delete_def removeAll_Nil_iff
        split: option.splits)

section \<open>Joining twice\<close>

lemma demo_rooms_q: "rooms demo ''q'' = None"
  by (simp add: demo_def handler_defs Let_def)

lemma demo_sio_q: "sio demo ''q'' = {}"
  by (simp add: demo_def handler_defs Let_def)

text \<open>
  C2, as the specification states it: a join by a participant that has joined already is
  rejected, nothing is mutated and no snapshot is sent. The handler has no such test: in
  the run \<open>demo\<close>, where \<open>a\<close> is in the room \<open>r\<close>, a join of \<open>a\<close> to \<open>q\<close> rewrites its
  registry record, creates the room \<open>q\<close> and sends \<open>a\<close> the snapshot of \<open>q\<close>.
\<close>

theorem C2_counterexample:
  "users_map demo ''a'' = Some \<lparr> roomId = ''r'', username = JStr ''Ann'' \<rparr> \<and>
   users_map (fst (join_room demo ''a'' ''q'' (JStr ''Zed''))) ''a'' =
     Some \<lparr> roomId = ''q'', username = JStr ''Zed'' \<rparr> \<and>
   rooms demo ''q'' = None \<and>
   rooms (fst (join_room demo ''a'' ''q'' (JStr ''Zed''))) ''q'' =
     Some \<lparr> users = [''a''], currentVideo = JNull, videoType = None,
            playbackState = \<lparr> isPlaying = False, currentTime = JNum 0, playbackRate = JNum 1 \<rparr> \<rparr> \<and>
   snd (join_room demo ''a'' ''q'' (JStr ''Zed'')) =
     [({}, Emit_user_joined ''a'' (JStr ''Zed'')),
      ({''a''}, Emit_room_state JNull None
         \<lparr> isPlaying = False, currentTime = JNum 0, playbackRate = JNum 1 \<rparr>
         [(''a'', JStr ''Zed'')])]"
  by (simp add: demo_user join_room_users_map join_room_rooms join_room_out demo_rooms_q
        demo_sio_q new_room_def default_playback_def set_add_def resolve_username_def js_or_def)

text \<open>
  C2, amended: a join by a participant that has a registry record already is processed as
  a first join is. The record is overwritten with the new room and name, the participant
  is in the member set of the target room, which now exists, the others in the target room
  are told and the caller is sent a snapshot of the target room. Of the three things the
  claim names, only the old room stays as it was, when the target is another room.
\<close>

theorem C2_second_join_is_processed:
  "users_map st sid = Some u \<longrightarrow>
     users_map (fst (join_room st sid rid uname)) sid = Some \<lparr> roomId = rid, username = uname \<rparr> \<and>
     (\<exists>room'. rooms (fst (join_room st sid rid uname)) rid = Some room' \<and>
        sid \<in> set (users room') \<and>
        (\<exists>members. snd (join_room st sid rid uname) =
           [(sio st rid - {sid}, Emit_user_joined sid uname),
            ({sid}, Emit_room_state (currentVideo room') (videoType room') (playbackState room')
               members)])) \<and>
     (roomId u \<noteq> rid \<longrightarrow>
        rooms (fst (join_room st sid rid uname)) (roomId u) = rooms st (roomId u))"
  by (simp add: join_room_users_map join_room_rooms join_room_out set_add_set)

theorem C2_second_join_is_processed_witness:
  "users_map (fst (join_room demo ''a'' ''q'' (JStr ''Zed''))) ''a'' =
     Some \<lparr> roomId = ''q'', username = JStr ''Zed'' \<rparr> \<and>
   (\<exists>room'. rooms (fst (join_room demo ''a'' ''q'' (JStr ''Zed''))) ''q'' = Some room' \<and>
      ''a'' \<in> set (users room')) \<and>
   rooms (fst (join_room demo ''a'' ''q'' (JStr ''Zed''))) ''r'' = rooms demo ''r''"
  using C2_second_join_is_processed [of demo "''a''" "\<lparr> roomId = ''r'', username = JStr ''Ann'' \<rparr>"
          "''q''" "JStr ''Zed''"]
  by (auto simp add: demo_user)

section \<open>A member left behind\<close>

text \<open>
  C10: let \<open>sid\<close> be in the member set of room \<open>A\<close>, and let it join another room \<open>B\<close>.
  Then its registry record points to \<open>B\<close>, it is in the member set of \<open>B\<close>, and room \<open>A\<close>
  is as before, with \<open>sid\<close> in its member set. After the disconnect of \<open>sid\<close> that
  follows, room \<open>A\<close> is still as before, \<open>sid\<close> is not in the member set of \<open>B\<close> and has
  no registry record.
\<close>

theorem C10_stale_member:
  "rooms st A = Some ra \<and> sid \<in> set (users ra) \<and> A \<noteq> B \<longrightarrow>
     users_map (fst (join_room st sid B uname)) sid = Some \<lparr> roomId = B, username = uname \<rparr> \<and>
     (\<exists>rb. rooms (fst (join_room st sid B uname)) B = Some rb \<and> sid \<in> set (users rb)) \<and>
     rooms (fst (join_room st sid B uname)) A = Some ra \<and>
     rooms (fst (disconnect (fst (join_room st sid B uname)) sid)) A = Some ra \<and>
     sid \<notin> member_set (fst (disconnect (fst (join_room st sid B uname)) sid)) B \<and>
     users_map (fst (disconnect (fst (join_room st sid B uname)) sid)) sid = None"
  by (auto simp add: join_room_users_map join_room_rooms set_add_set disconnect_rooms
        disconnect_users_map member_set_def set_delete_set split: option.splits)


theorem C10_stale_member_witness:
  "users_map (fst (join_room demo ''a'' ''q'' (JStr ''Zed''))) ''a'' =
     Some \<lparr> roomId = ''q'', username = JStr ''Zed'' \<rparr> \<and>
   (\<exists>ra. rooms (fst (disconnect (fst (join_room demo ''a'' ''q'' (JStr ''Zed''))) ''a'')) ''r'' =
      Some ra \<and> ''a'' \<in> set (users ra)) \<and>
   ''a'' \<notin> member_set (fst (disconnect (fst (join_room demo ''a'' ''q'' (JStr ''Zed''))) ''a'')) ''q''"
  using C10_stale_member [of demo "''r''"
          "\<lparr> users = [''a'', ''b''], currentVideo = JNull, videoType = None,
            playbackState = \<lparr> isPlaying = False, currentTime = JNum 42, playbackRate = JNum 1 \<rparr> \<rparr>"
          "''a''" "''q''" "JStr ''Zed''"]
  by (simp add: demo_room)

section \<open>The snapshot sent on joining\<close>

lemma stale_room_A:
  "rooms stale ''A'' = Some \<lparr> users = [''a''], currentVideo = JNull, videoType = None,
     playbackState = \<lparr> isPlaying = False, currentTime = JNum 0, playbackRate = JNum 1 \<rparr> \<rparr>"
  by (simp add: stale_def handler_defs Let_def)

lemma stale_user_a: "users_map stale ''a'' = None"
  by (simp add: stale_def handler_defs Let_def)

text \<open>
  C8: the second emission of \<^verbatim>\<open>join-room\<close> goes to the joining socket and is the
  \<^verbatim>\<open>room-state\<close> of the room as it is after the join. Its member list has one entry for
  each member of the room, in the order of the member set, the joining socket among them,
  with its own name (or \<^verbatim>\<open>Unknown\<close> when the name is falsy); and a member that has no
  registry record is listed with the name \<^verbatim>\<open>Unknown\<close>.
\<close>

theorem C8_snapshot_members:
  "\<exists>room' members.
     rooms (fst (join_room st sid rid uname)) rid = Some room' \<and>
     snd (join_room st sid rid uname) =
       [(sio st rid - {sid}, Emit_user_joined sid uname),
        ({sid}, Emit_room_state (currentVideo room') (videoType room') (playbackState room')
           members)] \<and>
     map fst members = users room' \<and>
     sid \<in> set (map fst members) \<and>
     (sid, js_or uname (JStr ''Unknown'')) \<in> set members \<and>
     (\<forall>userId \<in> set (users room').
        users_map (fst (join_room st sid rid uname)) userId = None \<longrightarrow>
          (userId, JStr ''Unknown'') \<in> set members)"
proof -
  let ?st' = "fst (join_room st sid rid uname)"
  let ?room0 = "case rooms st rid of None \<Rightarrow> new_room | Some r \<Rightarrow> r"
  let ?room' = "?room0\<lparr> users := set_add (users ?room0) sid \<rparr>"
  let ?members = "map (\<lambda>userId. (userId, resolve_username ?st' userId)) (users ?room')"
  have r: "rooms ?st' rid = Some ?room'"
    by (simp add: join_room_rooms)
  have o: "snd (join_room st sid rid uname) =
       [(sio st rid - {sid}, Emit_user_joined sid uname),
        ({sid}, Emit_room_state (currentVideo ?room') (videoType ?room') (playbackState ?room')
           ?members)]"
    using r by (simp add: join_room_out)
  have m: "map fst ?members = users ?room'"
    by (simp add: comp_def)
  have s: "sid \<in> set (users ?room')"
    by (simp add: set_add_set)
  have "resolve_username ?st' sid = js_or uname (JStr ''Unknown'')"
    by (simp add: resolve_username_def join_room_users_map)
  with s have own: "(sid, js_or uname (JStr ''Unknown'')) \<in> set ?members"
    by force
  have unk: "\<forall>userId \<in> set (users ?room').
        users_map ?st' userId = None \<longrightarrow> (userId, JStr ''Unknown'') \<in> set ?members"
    by (force simp add: resolve_username_def js_or_def)
  from r o m s own unk show ?thesis
    by (metis (no_types, lifting))
qed


theorem C8_snapshot_members_witness:
  "\<exists>cv vt ps members.
     snd (join_room stale ''b'' ''A'' (JStr ''Bob'')) =
       [(sio stale ''A'' - {''b''}, Emit_user_joined ''b'' (JStr ''Bob'')),
        ({''b''}, Emit_room_state cv vt ps members)] \<and>
     map fst members = [''a'', ''b''] \<and>
     (''b'', JStr ''Bob'') \<in> set members \<and> (''a'', JStr ''Unknown'') \<in> set members"
proof -
  let ?st' = "fst (join_room stale ''b'' ''A'' (JStr ''Bob''))"
  from C8_snapshot_members [of stale "''b''" "''A''" "JStr ''Bob''"]
  obtain room' members where
    h: "rooms ?st' ''A'' = Some room'"
       "snd (join_room stale ''b'' ''A'' (JStr ''Bob'')) =
          [(sio stale ''A'' - {''b''}, Emit_user_joined ''b'' (JStr ''Bob'')),
           ({''b''}, Emit_room_state (currentVideo room') (videoType room') (playbackState room')
              members)]"
       "map fst members = users room'"
       "(''b'', js_or (JStr ''Bob'') (JStr ''Unknown'')) \<in> set members"
       "\<forall>userId \<in> set (users room').
          users_map ?st' userId = None \<longrightarrow> (userId, JStr ''Unknown'') \<in> set members"
    by blast
  have r: "users room' = [''a'', ''b'']"
    using h(1) by (auto simp add: join_room_rooms stale_room_A set_add_def)
  have u: "users_map ?st' ''a'' = None"
    by (simp add: join_room_users_map stale_user_a)
  have b: "js_or (JStr ''Bob'') (JStr ''Unknown'') = JStr ''Bob''"
    by (simp add: js_or_def)
  from h r u b show ?thesis by auto
qed

section \<open>A room is in the store exactly while it has members\<close>

lemma step_nonempty: "rooms_nonempty st \<Longrightarrow> rooms_nonempty (fst (step st e))"
proof (cases e)
  case (JoinRoom sid rid uname)
  assume "rooms_nonempty st"
  then show ?thesis unfolding JoinRoom
    by (auto simp add: rooms_nonempty_def join_room_rooms set_add_def)
next
  case (Disconnect sid)
  assume "rooms_nonempty st"
  then show ?thesis unfolding Disconnect
    by (auto simp add: rooms_nonempty_def disconnect_rooms set_delete_def removeAll_Nil_iff
          split: option.splits if_splits)
qed (auto simp add: rooms_nonempty_def handler_defs split: option.splits)

lemma run_nonempty: "rooms_nonempty st \<Longrightarrow> rooms_nonempty (run st es)"
  by (induction es arbitrary: st) (simp_all add: step_nonempty)

lemma init_nonempty: "rooms_nonempty init"
  by (simp add: rooms_nonempty_def init_def)

text \<open>
  C1: after every sequence of events from the empty server, joins, disconnects and all the
  others, a room identifier is in the store if and only if its member set is not empty.
  A join to an identifier that is not in the store creates the room, with the joining
  socket as its only member; and the disconnect of a registered socket whose room is in
  the store deletes the room in the same step when no other member is left, and keeps
  it, without the socket, otherwise.
\<close>

theorem C1_room_iff_members:
  "(\<forall>r. (rooms (run init es) r \<noteq> None) = (member_set (run init es) r \<noteq> {})) \<and>
   (rooms st rid = None \<longrightarrow>
      rooms (fst (join_room st sid rid uname)) rid = Some (new_room\<lparr> users := [sid] \<rparr>)) \<and>
   (users_map st sid = Some u \<and> rooms st (roomId u) = Some room \<longrightarrow>
      rooms (fst (disconnect st sid)) (roomId u) =
        (if set (users room) - {sid} = {} then None
         else Some (room\<lparr> users := set_delete (users room) sid \<rparr>)))"
proof -
  have "rooms_nonempty (run init es)"
    by (simp add: run_nonempty init_nonempty)
  then have a: "\<forall>r. (rooms (run init es) r \<noteq> None) = (member_set (run init es) r \<noteq> {})"
    by (auto simp add: rooms_nonempty_def member_set_def split: option.splits)
  have b: "rooms st rid = None \<longrightarrow>
      rooms (fst (join_room st sid rid uname)) rid = Some (new_room\<lparr> users := [sid] \<rparr>)"
    by (simp add: join_room_rooms set_add_def new_room_def)
  have c: "users_map st sid = Some u \<and> rooms st (roomId u) = Some room \<longrightarrow>
      rooms (fst (disconnect st sid)) (roomId u) =
        (if set (users room) - {sid} = {} then None
         else Some (room\<lparr> users := set_delete (users room) sid \<rparr>))"
    by (auto simp add: disconnect_rooms)
  from a b c show ?thesis by blast
qed

lemma solo_user: "users_map solo ''a'' = Some \<lparr> roomId = ''r'', username = JStr ''Ann'' \<rparr>"
  by (simp add: solo_def handler_defs Let_def)

lemma solo_room:
  "rooms solo ''r'' = Some \<lparr> users = [''a''], currentVideo = JNull, videoType = None,
     playbackState = \<lparr> isPlaying = False, currentTime = JNum 0, playbackRate = JNum 1 \<rparr> \<rparr>"
  by (simp add: solo_def handler_defs Let_def)

lemma solo_room_q: "rooms solo ''q'' = None"
  by (simp add: solo_def handler_defs Let_def)

theorem C1_room_iff_members_witness:
  "rooms (run init [Connection ''a'', JoinRoom ''a'' ''r'' (JStr ''Ann'')]) ''r'' \<noteq> None \<and>
   member_set (run init [Connection ''a'', JoinRoom ''a'' ''r'' (JStr ''Ann'')]) ''r'' \<noteq> {} \<and>
   rooms (fst (join_room solo ''a'' ''q'' (JStr ''Ann''))) ''q'' = Some (new_room\<lparr> users := [''a''] \<rparr>) \<and>
   rooms (fst (disconnect solo ''a'')) ''r'' = None"
proof -
  have e: "rooms (run init [Connection ''a'', JoinRoom ''a'' ''r'' (JStr ''Ann'')]) ''r'' \<noteq> None"
    using solo_room by (simp add: solo_def)
  from e solo_user solo_room solo_room_q
    C1_room_iff_members [of "[Connection ''a'', JoinRoom ''a'' ''r'' (JStr ''Ann'')]" solo "''q''"
      "''a''" "JStr ''Ann''" "\<lparr> roomId = ''r'', username = JStr ''Ann'' \<rparr>"
      "\<lparr> users = [''a''], currentVideo = JNull, videoType = None,
        playbackState = \<lparr> isPlaying = False, currentTime = JNum 0, playbackRate = JNum 1 \<rparr> \<rparr>"]
  show ?thesis by auto
qed

section \<open>Who receives a broadcast\<close>

lemma connection_proj:
  "rooms (fst (connection st sid)) = rooms st"
  "users_map (fst (connection st sid)) = users_map st"
  "sio (fst (connection st sid)) = (sio st)(sid := insert sid (sio st sid))"
  "member_set (fst (connection st sid)) r = member_set st r"
  by (simp_all add: connection_def socket_join_def member_set_def)

lemma video_event_proj:
  "users_map (fst (video_event st sid data)) = users_map st"
  "sio (fst (video_event st sid data)) = sio st"
  "member_set (fst (video_event st sid data)) r = member_set st r"
  by (auto simp add: video_event_def member_set_def split: option.splits)

lemma change_youtube_video_proj:
  "users_map (fst (change_youtube_video st sid v t)) = users_map st"
  "sio (fst (change_youtube_video st sid v t)) = sio st"
  "member_set (fst (change_youtube_video st sid v t)) r = member_set st r"
  by (auto simp add: change_youtube_video_def member_set_def split: option.splits)

lemma change_uploaded_video_proj:
  "users_map (fst (change_uploaded_video st sid v t)) = users_map st"
  "sio (fst (change_uploaded_video st sid v t)) = sio st"
  "member_set (fst (change_uploaded_video st sid v t)) r = member_set st r"
  by (auto simp add: change_uploaded_video_def member_set_def split: option.splits)

lemma relay_proj:
  "fst (chat_message st sid m now) = st"
  "fst (webrtc_offer st sid target x) = st"
  "fst (webrtc_answer st sid target x) = st"
  "fst (webrtc_ice_candidate st sid target x) = st"
  by (simp_all add: chat_message_def webrtc_offer_def webrtc_answer_def
        webrtc_ice_candidate_def split: option.splits)

lemma members_live_alt:
  "members_live st gone =
     (\<forall>r t. t \<in> member_set st r \<longrightarrow>
        (users_map st t = None \<longrightarrow> t \<in> gone) \<and> (users_map st t \<noteq> None \<longrightarrow> t \<in> sio st r))"
  by (auto simp add: members_live_def member_set_def split: option.splits)

lemma members_liveI:
  assumes "\<And>r t. t \<in> member_set st r \<Longrightarrow> users_map st t = None \<Longrightarrow> t \<in> gone"
    and "\<And>r t u. t \<in> member_set st r \<Longrightarrow> users_map st t = Some u \<Longrightarrow> t \<in> sio st r"
  shows "members_live st gone"
  using assms by (auto simp add: members_live_alt)

lemma members_live_gone:
  "members_live st gone \<Longrightarrow> t \<in> member_set st r \<Longrightarrow> users_map st t = None \<Longrightarrow> t \<in> gone"
  by (simp add: members_live_alt)

lemma members_live_sio:
  "members_live st gone \<Longrightarrow> t \<in> member_set st r \<Longrightarrow> users_map st t = Some u \<Longrightarrow> t \<in> sio st r"
  by (simp add: members_live_alt)

lemma join_room_member_set:
  "member_set (fst (join_room st sid rid uname)) r =
     (if r = rid then insert sid (member_set st rid) else member_set st r)"
  by (auto simp add: member_set_def join_room_rooms set_add_set new_room_def split: option.splits)

lemma disconnect_member_set:
  "member_set (fst (disconnect st sid)) r \<subseteq> member_set st r"
  by (auto simp add: member_set_def disconnect_rooms set_delete_set split: option.splits if_splits)

lemma disconnect_member_set_keeps:
  "member_set st r - {sid} \<subseteq> member_set (fst (disconnect st sid)) r"
  by (auto simp add: member_set_def disconnect_rooms set_delete_set split: option.splits)

lemma step_reg_in_room: "reg_in_room st \<Longrightarrow> reg_in_room (fst (step st e))"
proof (cases e)
  case (JoinRoom sid rid uname)
  assume "reg_in_room st"
  then show ?thesis unfolding JoinRoom
    by (auto simp add: reg_in_room_def join_room_users_map join_room_member_set)
next
  case (Disconnect sid)
  assume "reg_in_room st"
  then show ?thesis unfolding Disconnect
    using disconnect_member_set_keeps [of st _ sid]
    by (fastforce simp add: reg_in_room_def disconnect_users_map split: if_splits)
qed (auto simp add: reg_in_room_def connection_proj video_event_proj change_youtube_video_proj
       change_uploaded_video_proj relay_proj)

lemma run_reg_in_room: "reg_in_room st \<Longrightarrow> reg_in_room (run st es)"
  by (induction es arbitrary: st) (simp_all add: step_reg_in_room)

lemma init_reg_in_room: "reg_in_room init"
  by (simp add: reg_in_room_def init_def)

lemma step_reg_in_sio: "reg_in_sio st \<Longrightarrow> reg_in_sio (fst (step st e))"
proof (cases e)
  case (JoinRoom sid rid uname)
  assume "reg_in_sio st"
  then show ?thesis unfolding JoinRoom
    by (auto simp add: reg_in_sio_def join_room_users_map join_room_sio)
next
  case (Disconnect sid)
  assume "reg_in_sio st"
  then show ?thesis unfolding Disconnect
    by (auto simp add: reg_in_sio_def disconnect_users_map disconnect_sio)
qed (auto simp add: reg_in_sio_def connection_proj video_event_proj change_youtube_video_proj
       change_uploaded_video_proj relay_proj)

lemma step_members_live:
  assumes inv: "members_live st gone" and live: "socket_of e \<notin> gone"
  shows "members_live (fst (step st e)) (departed gone e)"
proof (cases e)
  case (JoinRoom sid rid uname)
  have "members_live (fst (join_room st sid rid uname)) gone"
  proof (rule members_liveI)
    fix r t
    assume m: "t \<in> member_set (fst (join_room st sid rid uname)) r"
      and n: "users_map (fst (join_room st sid rid uname)) t = None"
    from n have "t \<noteq> sid" "users_map st t = None"
      by (auto simp add: join_room_users_map split: if_splits)
    with m have "t \<in> member_set st r"
      by (auto simp add: join_room_member_set split: if_splits)
    with inv \<open>users_map st t = None\<close> show "t \<in> gone"
      by (blast intro: members_live_gone)
  next
    fix r t u
    assume m: "t \<in> member_set (fst (join_room st sid rid uname)) r"
      and n: "users_map (fst (join_room st sid rid uname)) t = Some u"
    show "t \<in> sio (fst (join_room st sid rid uname)) r"
    proof (cases "t = sid")
      case True
      show ?thesis
      proof (cases "r = rid")
        case True
        with \<open>t = sid\<close> show ?thesis by (simp add: join_room_sio)
      next
        case False
        with m \<open>t = sid\<close> have old: "sid \<in> member_set st r"
          by (simp add: join_room_member_set)
        from live JoinRoom have "sid \<notin> gone" by simp
        with inv old obtain u' where "users_map st sid = Some u'"
          by (cases "users_map st sid") (auto dest: members_live_gone)
        with inv old have "sid \<in> sio st r" by (blast intro: members_live_sio)
        with \<open>t = sid\<close> show ?thesis by (simp add: join_room_sio)
      qed
    next
      case False
      with m have old: "t \<in> member_set st r"
        by (auto simp add: join_room_member_set split: if_splits)
      from False n have "users_map st t = Some u"
        by (simp add: join_room_users_map)
      with inv old have "t \<in> sio st r" by (blast intro: members_live_sio)
      then show ?thesis by (auto simp add: join_room_sio)
    qed
  qed
  with JoinRoom show ?thesis by simp
next
  case (Disconnect sid)
  have "members_live (fst (disconnect st sid)) (insert sid gone)"
  proof (rule members_liveI)
    fix r t
    assume m: "t \<in> member_set (fst (disconnect st sid)) r"
      and n: "users_map (fst (disconnect st sid)) t = None"
    from m disconnect_member_set [of st sid r] have old: "t \<in> member_set st r" by auto
    show "t \<in> insert sid gone"
    proof (cases "t = sid")
      case False
      with n have "users_map st t = None" by (simp add: disconnect_users_map)
      with inv old have "t \<in> gone" by (blast intro: members_live_gone)
      then show ?thesis by simp
    qed simp
  next
    fix r t u
    assume m: "t \<in> member_set (fst (disconnect st sid)) r"
      and n: "users_map (fst (disconnect st sid)) t = Some u"
    from m disconnect_member_set [of st sid r] have old: "t \<in> member_set st r" by auto
    from n have "t \<noteq> sid" "users_map st t = Some u"
      by (auto simp add: disconnect_users_map split: if_splits)
    with inv old have "t \<in> sio st r" by (blast intro: members_live_sio)
    with \<open>t \<noteq> sid\<close> show "t \<in> sio (fst (disconnect st sid)) r"
      by (simp add: disconnect_sio)
  qed
  with Disconnect show ?thesis by simp
next
  case (Connection sid)
  with inv show ?thesis
    by (auto simp add: members_live_def connection_proj)
qed (use inv in \<open>simp_all add: members_live_alt video_event_proj change_youtube_video_proj
       change_uploaded_video_proj relay_proj\<close>)

lemma run_reg_in_sio: "reg_in_sio st \<Longrightarrow> reg_in_sio (run st es)"
  by (induction es arbitrary: st) (simp_all add: step_reg_in_sio)

lemma run_members_live:
  "members_live st gone \<Longrightarrow> live_trace gone es \<Longrightarrow> \<exists>gone'. members_live (run st es) gone'"
proof (induction es arbitrary: st gone)
  case Nil
  then show ?case by auto
next
  case (Cons e es)
  from Cons.prems have "members_live (fst (step st e)) (departed gone e)"
    by (simp add: step_members_live)
  moreover from Cons.prems have "live_trace (departed gone e) es" by simp
  ultimately show ?case using Cons.IH by simp
qed

lemma set_live_members:
  "set (live_members st r) = {t \<in> member_set st r. users_map st t \<noteq> None}"
  by (auto simp add: live_members_def member_set_def split: option.splits)

lemma live_members_in_sio:
  "members_live st gone \<Longrightarrow> set (live_members st r) \<subseteq> sio st r"
  by (auto simp add: set_live_members intro: members_live_sio)


lemma init_reg_in_sio: "reg_in_sio init"
  by (simp add: reg_in_sio_def init_def)

lemma init_members_live: "members_live init {}"
  by (simp add: members_live_def init_def)

text \<open>
  C6: after every sequence of events from the empty server in which no socket acts after
  its disconnect, let \<open>sid\<close> have a registry record. Then \<open>sid\<close> is a member of the room
  of its record, and that room is in the store. A \<^verbatim>\<open>video-event\<close> of \<open>sid\<close> is emitted with
  its payload to \<^verbatim>\<open>socket.to(roomId)\<close>: never to \<open>sid\<close>, and to every other member of the
  room that has not disconnected. A \<^verbatim>\<open>chat-message\<close> and both video changes are emitted to
  \<^verbatim>\<open>io.to(roomId)\<close>: to \<open>sid\<close> itself and to every member of the room that has not
  disconnected.
\<close>

theorem C6_broadcast_recipients:
  "live_trace {} es \<and> users_map (run init es) sid = Some u \<longrightarrow>
     sid \<in> member_set (run init es) (roomId u) \<and>
     snd (video_event (run init es) sid data) =
       [(socket_to (run init es) sid (roomId u), Emit_video_event data)] \<and>
     sid \<notin> socket_to (run init es) sid (roomId u) \<and>
     set (live_members (run init es) (roomId u)) - {sid} \<subseteq> socket_to (run init es) sid (roomId u) \<and>
     snd (chat_message (run init es) sid message now) =
       [(io_to (run init es) (roomId u), Emit_chat_message sid (username u) message now)] \<and>
     snd (change_youtube_video (run init es) sid videoId title) =
       [(io_to (run init es) (roomId u), Emit_youtube_video_changed videoId title)] \<and>
     snd (change_uploaded_video (run init es) sid fileUrl fileName) =
       [(io_to (run init es) (roomId u), Emit_uploaded_video_changed fileUrl fileName)] \<and>
     sid \<in> io_to (run init es) (roomId u) \<and>
     set (live_members (run init es) (roomId u)) \<subseteq> io_to (run init es) (roomId u)"
proof (intro impI, elim conjE)
  let ?st = "run init es"
  assume live: "live_trace {} es" and reg: "users_map ?st sid = Some u"
  have "reg_in_sio ?st" by (simp add: run_reg_in_sio init_reg_in_sio)
  with reg have own: "sid \<in> sio ?st (roomId u)" by (simp add: reg_in_sio_def)
  have "reg_in_room ?st" by (simp add: run_reg_in_room init_reg_in_room)
  with reg have inroom: "sid \<in> member_set ?st (roomId u)" by (simp add: reg_in_room_def)
  then obtain room where room: "rooms ?st (roomId u) = Some room"
    by (auto simp add: member_set_def split: option.splits)
  from live obtain gone where "members_live ?st gone"
    using run_members_live [OF init_members_live] by blast
  then have mem: "set (live_members ?st (roomId u)) \<subseteq> sio ?st (roomId u)"
    by (rule live_members_in_sio)
  from reg own inroom room mem show "sid \<in> member_set ?st (roomId u) \<and>
     snd (video_event ?st sid data) = [(socket_to ?st sid (roomId u), Emit_video_event data)] \<and>
     sid \<notin> socket_to ?st sid (roomId u) \<and>
     set (live_members ?st (roomId u)) - {sid} \<subseteq> socket_to ?st sid (roomId u) \<and>
     snd (chat_message ?st sid message now) =
       [(io_to ?st (roomId u), Emit_chat_message sid (username u) message now)] \<and>
     snd (change_youtube_video ?st sid videoId title) =
       [(io_to ?st (roomId u), Emit_youtube_video_changed videoId title)] \<and>
     snd (change_uploaded_video ?st sid fileUrl fileName) =
       [(io_to ?st (roomId u), Emit_uploaded_video_changed fileUrl fileName)] \<and>
     sid \<in> io_to ?st (roomId u) \<and>
     set (live_members ?st (roomId u)) \<subseteq> io_to ?st (roomId u)"
    by (auto simp add: chat_message_def video_event_def change_youtube_video_def
          change_uploaded_video_def io_to_def socket_to_def)
qed

lemma demo_live_members: "live_members demo ''r'' = [''a'', ''b'']"
  by (simp add: live_members_def demo_def handler_defs Let_def)

theorem C6_broadcast_recipients_witness:
  "snd (video_event demo ''a'' [(''type'', JStr ''play'')]) =
     [({''b''}, Emit_video_event [(''type'', JStr ''play'')])] \<and>
   snd (chat_message demo ''a'' (JStr ''hi'') ''now'') =
     [({''a'', ''b''}, Emit_chat_message ''a'' (JStr ''Ann'') (JStr ''hi'') ''now'')] \<and>
   snd (change_youtube_video demo ''a'' (JStr ''abc123'') (JStr ''Demo'')) =
     [({''a'', ''b''}, Emit_youtube_video_changed (JStr ''abc123'') (JStr ''Demo''))] \<and>
   set (live_members demo ''r'') \<subseteq> io_to demo ''r''"
proof -
  let ?es = "[Connection ''a'', Connection ''b'', JoinRoom ''a'' ''r'' (JStr ''Ann''),
              JoinRoom ''b'' ''r'' (JStr ''Bob''),
              VideoEvent ''a'' [(''type'', JStr ''seek''), (''currentTime'', JNum 42)]]"
  have l: "live_trace {} ?es" by simp
  have t: "socket_to demo ''a'' ''r'' = {''b''}" "io_to demo ''r'' = {''a'', ''b''}"
    by (auto simp add: socket_to_def io_to_def demo_sio)
  from l t demo_user
    C6_broadcast_recipients [of ?es "''a''" "\<lparr> roomId = ''r'', username = JStr ''Ann'' \<rparr>"
      "[(''type'', JStr ''play'')]" "JStr ''hi''" "''now''" "JStr ''abc123''" "JStr ''Demo''",
      folded demo_def]
  show ?thesis by simp
qed

section \<open>The signaling relay\<close>

lemma step_sio_unjoined:
  "\<not> joins e x \<Longrightarrow> sio st x \<subseteq> {x} \<Longrightarrow> sio (fst (step st e)) x \<subseteq> {x}"
  by (cases e)
     (auto simp add: connection_proj join_room_sio video_event_proj change_youtube_video_proj
        change_uploaded_video_proj relay_proj disconnect_sio split: if_splits)

lemma run_sio_unjoined:
  "\<forall>e \<in> set es. \<not> joins e x \<Longrightarrow> sio st x \<subseteq> {x} \<Longrightarrow> sio (run st es) x \<subseteq> {x}"
  by (induction es arbitrary: st) (simp_all add: step_sio_unjoined)

lemma run_append: "run st (es1 @ es2) = run (run st es1) es2"
  by (induction es1 arbitrary: st) simp_all

lemma step_stays_connected:
  "t \<in> sio st t \<Longrightarrow> e \<noteq> Disconnect t \<Longrightarrow> t \<in> sio (fst (step st e)) t"
  by (cases e)
     (auto simp add: connection_proj join_room_sio video_event_proj change_youtube_video_proj
        change_uploaded_video_proj relay_proj disconnect_sio)

lemma run_stays_connected:
  "t \<in> sio st t \<Longrightarrow> Disconnect t \<notin> set es \<Longrightarrow> t \<in> sio (run st es) t"
  by (induction es arbitrary: st) (auto simp add: step_stays_connected)

text \<open>
  What the three handlers emit, in every state: one message, with the payload and the
  sender's id, to \<^verbatim>\<open>socket.to(data.target)\<close>, and no change of the state.
\<close>

lemma signaling_emission:
  "webrtc_offer st sid target offer =
     (st, [(sio st target - {sid}, Emit_webrtc_offer offer sid)]) \<and>
   webrtc_answer st sid target answer =
     (st, [(sio st target - {sid}, Emit_webrtc_answer answer sid)]) \<and>
   webrtc_ice_candidate st sid target candidate =
     (st, [(sio st target - {sid}, Emit_webrtc_ice_candidate candidate sid)])"
  by (simp add: webrtc_offer_def webrtc_answer_def webrtc_ice_candidate_def socket_to_def)

text \<open>
  The delivery is point to point as long as no socket has joined a room that has the
  target's id as its identifier: a target that has connected and not disconnected is the
  one socket reached, and a target that is not connected leaves nobody to reach.
\<close>

lemma signaling_point_to_point:
  assumes "\<forall>e \<in> set (es1 @ Connection target # es2). \<not> joins e target"
    and "Disconnect target \<notin> set es2" and "sid \<noteq> target"
  shows "socket_to (run init (es1 @ Connection target # es2)) sid target = {target}"
proof -
  let ?st = "run init (es1 @ Connection target # es2)"
  have "sio ?st target \<subseteq> {target}"
    using assms(1) run_sio_unjoined [of "es1 @ Connection target # es2" target init]
    by (simp add: init_def)
  moreover have "target \<in> sio (fst (step (run init es1) (Connection target))) target"
    by (simp add: connection_proj)
  then have "target \<in> sio ?st target"
    using assms(2) by (simp add: run_append run_stays_connected)
  ultimately show ?thesis
    using assms(3) by (auto simp add: socket_to_def)
qed

lemma signaling_target_not_connected:
  assumes "\<forall>e \<in> set es. \<not> joins e target" and "target \<notin> sio (run init es) target"
  shows "socket_to (run init es) sid target = {}"
proof -
  have "sio (run init es) target \<subseteq> {target}"
    using assms(1) run_sio_unjoined [of es target init] by (simp add: init_def)
  with assms(2) show ?thesis
    by (auto simp add: socket_to_def)
qed

lemma eaves_sio: "sio eaves ''b'' = {''b'', ''c''}"
  by (auto simp add: eaves_def handler_defs Let_def)

text \<open>
  C7: a signaling message is to reach the channel of the named target only. The handlers
  of lines 230-249 address one \<^verbatim>\<open>data.target\<close> and attach \<^verbatim>\<open>from: socket.id\<close>, but
  \<^verbatim>\<open>socket.to\<close> addresses a Socket.IO room, and \<^verbatim>\<open>join-room\<close> (line 107) lets a client
  join a room of any name, the id of another socket too. In the run \<open>eaves\<close> the sockets
  \<open>a\<close>, \<open>b\<close> and \<open>c\<close> are connected and \<open>c\<close> has joined the room named \<open>b\<close>: an offer, an
  answer and an ICE candidate that \<open>a\<close> sends to the target \<open>b\<close> reach \<open>c\<close> as well as \<open>b\<close>.
\<close>

theorem C7_signal_reaches_room_joiner:
  "''b'' \<in> sio eaves ''b'' \<and>
   webrtc_offer eaves ''a'' ''b'' (JStr ''sdp'') =
     (eaves, [({''b'', ''c''}, Emit_webrtc_offer (JStr ''sdp'') ''a'')]) \<and>
   webrtc_answer eaves ''a'' ''b'' (JStr ''sdp'') =
     (eaves, [({''b'', ''c''}, Emit_webrtc_answer (JStr ''sdp'') ''a'')]) \<and>
   webrtc_ice_candidate eaves ''a'' ''b'' (JStr ''ice'') =
     (eaves, [({''b'', ''c''}, Emit_webrtc_ice_candidate (JStr ''ice'') ''a'')])"
  by (auto simp add: webrtc_offer_def webrtc_answer_def webrtc_ice_candidate_def socket_to_def
        eaves_sio)

end
